theory Spec2Isabelle
  imports Complex_Main "HOL-Library.Sublist"
begin

section \<open>The ecosystem prediction service (backend/ml\_service.py)\<close>

text \<open>
  A shallow embedding of \<^verbatim>\<open>EcosystemPredictor\<close> and of the \<^verbatim>\<open>/predict/collapse\<close>
  handler. Population counts and all derived quantities are real numbers: the arithmetic
  of the model is exact, the rounding of binary64 floating point is not represented.
  Every Python exception is a value \<open>Inl e\<close> of a sum type, so that a \<^verbatim>\<open>try/except\<close>
  is a case distinction on the result of the guarded body.
\<close>

subsection \<open>Python values and exceptions\<close>

datatype py_error =
    ValueError string
  | KeyError string
  | IndexError
  | ZeroDivisionError
  | LibraryError string


text \<open>Sequencing of fallible steps: the first exception ends the block.\<close>

fun and_then :: "py_error + 'a \<Rightarrow> ('a \<Rightarrow> py_error + 'b) \<Rightarrow> py_error + 'b" where
  "and_then (Inl e) k = Inl e"
| "and_then (Inr v) k = k v"

text \<open>\<^verbatim>\<open>xs[i]\<close>: a negative index counts from the end, an index out of range raises.\<close>

definition py_index :: "'a list \<Rightarrow> int \<Rightarrow> py_error + 'a" where
  "py_index xs i =
     (let pos = (if i < 0 then i + int (length xs) else i)
      in if pos < 0 \<or> int (length xs) \<le> pos then Inl IndexError
         else Inr (xs ! nat pos))"

text \<open>\<^verbatim>\<open>xs[lo:hi]\<close>: both bounds are clamped to the list, never raising.\<close>

definition slice_bound :: "nat \<Rightarrow> int \<Rightarrow> nat" where
  "slice_bound n i = (if i < 0 then nat (max 0 (int n + i)) else min (nat i) n)"

definition py_slice :: "'a list \<Rightarrow> int \<Rightarrow> int \<Rightarrow> 'a list" where
  "py_slice xs lo hi =
     (let a = slice_bound (length xs) lo; b = slice_bound (length xs) hi
      in take (b - a) (drop a xs))"


text \<open>\<^verbatim>\<open>max(a, b)\<close> of two arguments keeps the first unless the second is greater.\<close>

definition py_max2 :: "real \<Rightarrow> real \<Rightarrow> real" where
  "py_max2 a b = (if b > a then b else a)"

definition py_min2 :: "real \<Rightarrow> real \<Rightarrow> real" where
  "py_min2 a b = (if b < a then b else a)"

text \<open>\<^verbatim>\<open>min(iterable)\<close> and \<^verbatim>\<open>max(iterable)\<close> raise on an empty iterable.\<close>

fun py_min :: "real list \<Rightarrow> py_error + real" where
  "py_min [] = Inl (ValueError ''min() arg is an empty sequence'')"
| "py_min (x # xs) = Inr (foldl py_min2 x xs)"

fun py_max :: "real list \<Rightarrow> py_error + real" where
  "py_max [] = Inl (ValueError ''max() arg is an empty sequence'')"
| "py_max (x # xs) = Inr (foldl py_max2 x xs)"


text \<open>
  \<^verbatim>\<open>a / b\<close>. Python numbers raise on a zero divisor; numpy scalars would only warn, so
  using this division on the pandas path as well can only add failures to the model.
\<close>

definition truediv :: "real \<Rightarrow> real \<Rightarrow> py_error + real" where
  "truediv a b = (if b = 0 then Inl ZeroDivisionError else Inr (a / b))"

text \<open>
  \<^verbatim>\<open>np.std(xs)\<close> with its default \<^verbatim>\<open>ddof=0\<close>: the root of the mean squared deviation
  from the mean. (On an empty array numpy returns nan with a warning; every call of
  the service passes the five values of a window.)
\<close>

definition np_mean :: "real list \<Rightarrow> real" where
  "np_mean xs = sum_list xs / real (length xs)"

definition np_std :: "real list \<Rightarrow> real" where
  "np_std xs = sqrt (np_mean (map (\<lambda>x. (x - np_mean xs)\<^sup>2) xs))"

subsection \<open>Snapshots and data frames\<close>

record snapshot =
  step :: int
  plants :: real
  herbivores :: real
  carnivores :: real

text \<open>
  \<^verbatim>\<open>pd.DataFrame(data)\<close> of a list of snapshots: one row per snapshot. \<^verbatim>\<open>df.iloc[i]\<close> is
  positional row access, \<^verbatim>\<open>df.iloc[lo:hi]\<close> a positional slice, \<^verbatim>\<open>df[col]\<close> a column.
\<close>

type_synonym dataframe = "snapshot list"

definition iloc :: "dataframe \<Rightarrow> int \<Rightarrow> py_error + snapshot" where
  "iloc df i = py_index df i"

definition iloc_range :: "dataframe \<Rightarrow> int \<Rightarrow> int \<Rightarrow> dataframe" where
  "iloc_range df lo hi = py_slice df lo hi"

definition column :: "(snapshot \<Rightarrow> real) \<Rightarrow> dataframe \<Rightarrow> real list" where
  "column f df = map f df"

subsection \<open>Feature extraction, training path (prepare\_features, lines 68--103)\<close>

text \<open>\<^verbatim>\<open>[lookback.iloc[j][col] for j in range(len(lookback))]\<close>\<close>

fun iloc_each :: "dataframe \<Rightarrow> (snapshot \<Rightarrow> real) \<Rightarrow> nat list \<Rightarrow> py_error + real list" where
  "iloc_each df f [] = Inr []"
| "iloc_each df f (j # js) =
     and_then (iloc df (int j)) (\<lambda>row.
     and_then (iloc_each df f js) (\<lambda>rest. Inr (f row # rest)))"

definition feature_row :: "dataframe \<Rightarrow> py_error + real list" where
  "feature_row lookback =
     and_then (iloc lookback (- 1)) (\<lambda>cur.
     and_then (iloc lookback 0) (\<lambda>old.
     and_then (truediv (plants cur) (py_max2 (herbivores cur) 1)) (\<lambda>plant_herb_ratio.
     and_then (truediv (herbivores cur) (py_max2 (carnivores cur) 1)) (\<lambda>herb_carn_ratio.
     and_then (truediv (carnivores cur) (py_max2 (herbivores cur) 1)) (\<lambda>carn_herb_ratio.
     and_then (iloc_each lookback plants [0 ..< length lookback]) (\<lambda>ps.
     and_then (iloc_each lookback herbivores [0 ..< length lookback]) (\<lambda>hs.
     and_then (iloc_each lookback carnivores [0 ..< length lookback]) (\<lambda>cs.
     and_then (py_min (column plants lookback)) (\<lambda>min_plants.
     and_then (py_max (column plants lookback)) (\<lambda>max_plants.
     and_then (py_min (column herbivores lookback)) (\<lambda>min_herbivores.
     and_then (py_max (column herbivores lookback)) (\<lambda>max_herbivores.
     and_then (py_min (column carnivores lookback)) (\<lambda>min_carnivores.
     and_then (py_max (column carnivores lookback)) (\<lambda>max_carnivores.
       Inr [plants cur, herbivores cur, carnivores cur,
            (plants cur - plants old) / 5,
            (herbivores cur - herbivores old) / 5,
            (carnivores cur - carnivores old) / 5,
            plant_herb_ratio, herb_carn_ratio, carn_herb_ratio,
            plants cur + herbivores cur + carnivores cur,
            np_std ps, np_std hs, np_std cs,
            min_plants, max_plants,
            min_herbivores, max_herbivores,
            min_carnivores, max_carnivores]))))))))))))))"

subsection \<open>The collapse label (lines 107--112)\<close>

definition collapse :: "snapshot \<Rightarrow> bool" where
  "collapse next_step \<longleftrightarrow>
     plants next_step < 5 \<or> herbivores next_step = 0 \<or> carnivores next_step = 0"

definition target_of :: "snapshot \<Rightarrow> int" where
  "target_of next_step = (if collapse next_step then 1 else 0)"

subsection \<open>prepare\_features (lines 56--114)\<close>

text \<open>
  The body of \<^verbatim>\<open>for i in range(5, len(df))\<close>, with the two accumulators \<^verbatim>\<open>features\<close> and
  \<^verbatim>\<open>targets\<close>; the list argument holds the indices still to be visited.
\<close>

fun prepare_loop ::
  "dataframe \<Rightarrow> nat list \<Rightarrow> real list list \<times> int list \<Rightarrow> py_error + (real list list \<times> int list)"
where
  "prepare_loop df [] acc = Inr acc"
| "prepare_loop df (i # rest) (features, targets) =
     and_then (feature_row (iloc_range df (int i - 5) (int i))) (\<lambda>row.
     and_then (iloc df (int i)) (\<lambda>next_step.
       prepare_loop df rest (features @ [row], targets @ [target_of next_step])))"

definition prepare_features :: "snapshot list \<Rightarrow> py_error + (real list list \<times> int list)" where
  "prepare_features data =
     (if length data < 10
      then Inl (ValueError ''Insufficient data for prediction (need at least 10 data points)'')
      else prepare_loop data [5 ..< length data] ([], []))"

subsection \<open>Feature extraction, inference path (predict\_collapse\_risk, lines 186--220)\<close>


subsection \<open>The heuristic estimator (\_heuristic\_collapse\_prediction, lines 253--292)\<close>










subsection \<open>The resident model and classifier inference (predict\_collapse\_risk, lines 174--251)\<close>










subsection \<open>The handler of POST /predict/collapse (lines 399--433)\<close>




subsection \<open>Training (train\_collapse\_predictor, lines 116--172)\<close>









subsection \<open>Forecasting (forecast\_populations, lines 294--366)\<close>






record prediction =
  pred_step :: int
  pred_plants :: int
  pred_herbivores :: int
  pred_carnivores :: int









subsection \<open>The feature recipe as specified\<close>

text \<open>
  The specified recipe for a window: the three current populations, the three rates of
  change (last minus first, over 5), the three ratios with denominators floored at 1,
  the total biomass, the three population standard deviations, and minimum and maximum
  of each population over the window.
\<close>

definition population_std :: "real list \<Rightarrow> real" where
  "population_std xs =
     sqrt ((\<Sum>x\<leftarrow>xs. (x - sum_list xs / real (length xs))\<^sup>2) / real (length xs))"

definition extract_spec :: "snapshot list \<Rightarrow> real list" where
  "extract_spec w =
     (let cur = last w; first = hd w in
      [plants cur, herbivores cur, carnivores cur,
       (plants cur - plants first) / 5,
       (herbivores cur - herbivores first) / 5,
       (carnivores cur - carnivores first) / 5,
       plants cur / max (herbivores cur) 1,
       herbivores cur / max (carnivores cur) 1,
       carnivores cur / max (herbivores cur) 1,
       plants cur + herbivores cur + carnivores cur,
       population_std (map plants w),
       population_std (map herbivores w),
       population_std (map carnivores w),
       Min (set (map plants w)), Max (set (map plants w)),
       Min (set (map herbivores w)), Max (set (map herbivores w)),
       Min (set (map carnivores w)), Max (set (map carnivores w))])"

text \<open>The window \<^verbatim>\<open>history[i-5:i]\<close> for \<open>5 \<le> i\<close>.\<close>

definition lookback_window :: "snapshot list \<Rightarrow> nat \<Rightarrow> snapshot list" where
  "lookback_window history i = take 5 (drop (i - 5) history)"

subsection \<open>Example inputs\<close>



definition flat_snapshot :: "int \<Rightarrow> snapshot" where
  "flat_snapshot t = \<lparr>step = t, plants = 50, herbivores = 10, carnivores = 5\<rparr>"

definition example_history :: "snapshot list" where
  "example_history =
     [flat_snapshot 0, flat_snapshot 1, flat_snapshot 2, flat_snapshot 3, flat_snapshot 4,
      flat_snapshot 5, flat_snapshot 6,
      \<lparr>step = 7, plants = 4, herbivores = 10, carnivores = 5\<rparr>,
      flat_snapshot 8, flat_snapshot 9]"

subsection \<open>The heuristic rules as specified\<close>




subsection \<open>Example predictors and requests\<close>










subsection \<open>Example libraries and histories\<close>








section \<open>Verification\<close>

subsection \<open>Python primitives\<close>

lemma py_index_last: "xs \<noteq> [] \<Longrightarrow> py_index xs (- 1) = Inr (last xs)"
  by (cases xs rule: rev_cases) (auto simp: py_index_def Let_def nth_append)

lemma py_index_first: "xs \<noteq> [] \<Longrightarrow> py_index xs 0 = Inr (hd xs)"
  by (cases xs) (auto simp: py_index_def Let_def)

lemma py_index_nat: "j < length xs \<Longrightarrow> py_index xs (int j) = Inr (xs ! j)"
  by (simp add: py_index_def Let_def)

lemma iloc_each_in_range:
  "\<forall>j \<in> set js. j < length df \<Longrightarrow> iloc_each df f js = Inr (map (\<lambda>j. f (df ! j)) js)"
  by (induction js) (simp_all add: iloc_def py_index_nat)

lemma iloc_each_all: "iloc_each df f [0 ..< length df] = Inr (map f df)"
proof -
  have "iloc_each df f [0 ..< length df] = Inr (map (\<lambda>j. f (df ! j)) [0 ..< length df])"
    by (rule iloc_each_in_range) simp
  also have "map (\<lambda>j. f (df ! j)) [0 ..< length df] = map f df"
    by (simp add: map_nth map_equality_iff)
  finally show ?thesis .
qed

lemma py_min2_min: "py_min2 a b = min a b"
  by (simp add: py_min2_def min_def)

lemma py_max2_max: "py_max2 a b = max a b"
  by (simp add: py_max2_def max_def)

lemma foldl_min: "foldl py_min2 x xs = Min (set (x # xs))"
proof -
  have "foldl py_min2 x xs = fold min xs x"
    by (simp add: foldl_conv_fold py_min2_min[abs_def] min.commute)
  then show ?thesis by (simp only: Min.set_eq_fold)
qed

lemma foldl_max: "foldl py_max2 x xs = Max (set (x # xs))"
proof -
  have "foldl py_max2 x xs = fold max xs x"
    by (simp add: foldl_conv_fold py_max2_max[abs_def] max.commute)
  then show ?thesis by (simp only: Max.set_eq_fold)
qed

lemma py_min_Min: "xs \<noteq> [] \<Longrightarrow> py_min xs = Inr (Min (set xs))"
  by (cases xs) (simp_all add: foldl_min del: set_simps)

lemma py_max_Max: "xs \<noteq> [] \<Longrightarrow> py_max xs = Inr (Max (set xs))"
  by (cases xs) (simp_all add: foldl_max del: set_simps)

lemma truediv_floored: "truediv a (py_max2 d 1) = Inr (a / max d 1)"
  by (simp add: truediv_def py_max2_max max_def)

lemma np_std_population: "np_std xs = population_std xs"
  by (simp add: np_std_def np_mean_def population_std_def)

subsection \<open>Both extraction paths follow the recipe\<close>

lemma feature_row_spec: "w \<noteq> [] \<Longrightarrow> feature_row w = Inr (extract_spec w)"
  by (simp add: feature_row_def extract_spec_def iloc_def py_index_last py_index_first
      truediv_floored iloc_each_all column_def py_min_Min py_max_Max np_std_population Let_def)









subsection \<open>The training matrix\<close>

lemma iloc_range_window:
  "5 \<le> i \<Longrightarrow> i \<le> length df \<Longrightarrow> iloc_range df (int i - 5) (int i) = lookback_window df i"
  by (auto simp: iloc_range_def py_slice_def slice_bound_def lookback_window_def Let_def
      nat_diff_distrib' min_def)

lemma length_lookback_window:
  "5 \<le> i \<Longrightarrow> i \<le> length df \<Longrightarrow> length (lookback_window df i) = 5"
  by (simp add: lookback_window_def)

lemma prepare_loop_rows:
  "\<forall>i \<in> set idx. 5 \<le> i \<and> i < length df \<Longrightarrow>
   prepare_loop df idx (fs, ts) =
     Inr (fs @ map (\<lambda>i. extract_spec (lookback_window df i)) idx,
          ts @ map (\<lambda>i. target_of (df ! i)) idx)"
proof (induction idx arbitrary: fs ts)
  case Nil
  then show ?case by simp
next
  case (Cons i rest)
  then have i: "5 \<le> i" "i < length df" by simp_all
  then have "lookback_window df i \<noteq> []"
    using length_lookback_window[of i df] by auto
  then have row: "feature_row (iloc_range df (int i - 5) (int i))
                    = Inr (extract_spec (lookback_window df i))"
    using i by (simp add: iloc_range_window feature_row_spec)
  have nxt: "iloc df (int i) = Inr (df ! i)"
    using i by (simp add: iloc_def py_index_nat)
  show ?case
    using Cons.prems by (simp add: row nxt Cons.IH)
qed

lemma prepare_features_rows:
  assumes "10 \<le> length data"
  shows "prepare_features data =
           Inr (map (\<lambda>i. extract_spec (lookback_window data i)) [5 ..< length data],
                map (\<lambda>i. target_of (data ! i)) [5 ..< length data])"
  using assms prepare_loop_rows[of "[5 ..< length data]" data "[]" "[]"]
  by (simp add: prepare_features_def)


lemma prepare_features_long: "prepare_features data = Inr r \<Longrightarrow> 10 \<le> length data"
  by (simp add: prepare_features_def split: if_splits)

text \<open>
  Claim C3. A snapshot is labelled as a collapse exactly when plants are below 5 or
  herbivores or carnivores are 0; plants 4 with one herbivore and one carnivore is a
  collapse, plants 5 is not; and in the training set the example built from the window
  \<^verbatim>\<open>history[i-5:i]\<close> carries the label of \<^verbatim>\<open>history[i]\<close>.
\<close>

theorem collapse_label_rule:
  "(collapse s \<longleftrightarrow> plants s < 5 \<or> herbivores s = 0 \<or> carnivores s = 0)
   \<and> collapse \<lparr>step = t, plants = 4, herbivores = 1, carnivores = 1\<rparr>
   \<and> \<not> collapse \<lparr>step = t, plants = 5, herbivores = 1, carnivores = 1\<rparr>
   \<and> (prepare_features history = Inr (X, y) \<longrightarrow> 5 \<le> i \<longrightarrow> i < length history \<longrightarrow>
        length X = length history - 5 \<and> length y = length history - 5
        \<and> feature_row (iloc_range history (int i - 5) (int i)) = Inr (X ! (i - 5))
        \<and> y ! (i - 5) = (if collapse (history ! i) then 1 else 0))"
proof -
  have "length X = length history - 5 \<and> length y = length history - 5
        \<and> feature_row (iloc_range history (int i - 5) (int i)) = Inr (X ! (i - 5))
        \<and> y ! (i - 5) = (if collapse (history ! i) then 1 else 0)"
    if ok: "prepare_features history = Inr (X, y)" and i: "5 \<le> i" "i < length history"
  proof -
    from ok have "10 \<le> length history"
      by (rule prepare_features_long)
    from prepare_features_rows[OF this] ok
    have X: "X = map (\<lambda>i. extract_spec (lookback_window history i)) [5 ..< length history]"
      and y: "y = map (\<lambda>i. target_of (history ! i)) [5 ..< length history]"
      by simp_all
    have "lookback_window history i \<noteq> []"
      using length_lookback_window[of i history] i by auto
    then have "feature_row (iloc_range history (int i - 5) (int i))
                 = Inr (extract_spec (lookback_window history i))"
      using i by (simp add: iloc_range_window feature_row_spec)
    moreover have pos: "[5 ..< length history] ! (i - 5) = i" "i - 5 < length history - 5"
      using i by (simp_all add: nth_upt)
    then have "X ! (i - 5) = extract_spec (lookback_window history i)"
      by (simp add: X)
    moreover from pos have "y ! (i - 5) = target_of (history ! i)"
      by (simp add: y)
    ultimately show ?thesis
      by (simp add: X y target_of_def)
  qed
  then show ?thesis
    by (simp add: collapse_def)
qed

theorem collapse_label_rule_witness:
  "prepare_features example_history =
     Inr (map (\<lambda>i. extract_spec (lookback_window example_history i)) [5, 6, 7, 8, 9],
          [0, 0, 1, 0, 0])
   \<and> (5::nat) \<le> 7 \<and> 7 < length example_history
   \<and> collapse (example_history ! 7)
   \<and> [0, 0, 1, 0, 0 :: int] ! (7 - 5) = (if collapse (example_history ! 7) then 1 else 0)"
proof -
  have up: "[5 ..< 10] = [5, 6, 7, 8, 9 :: nat]"
    by (simp add: upt_rec)
  have len: "length example_history = 10"
    by (simp add: example_history_def)
  have prep: "prepare_features example_history =
     Inr (map (\<lambda>i. extract_spec (lookback_window example_history i)) [5, 6, 7, 8, 9],
          [0, 0, 1, 0, 0])"
    using prepare_features_rows[of example_history]
    by (simp add: len up) (simp add: example_history_def target_of_def collapse_def flat_snapshot_def)
  have c: "collapse (example_history ! 7)"
    by (simp add: example_history_def collapse_def)
  from collapse_label_rule[of "example_history ! 7" 7 example_history
      "map (\<lambda>i. extract_spec (lookback_window example_history i)) [5, 6, 7, 8, 9]"
      "[0, 0, 1, 0, 0]" 7] prep len c
  show ?thesis
    by simp
qed



subsection \<open>The heuristic estimator\<close>








subsection \<open>Inference with fallback\<close>








subsection \<open>The collapse endpoint\<close>



subsection \<open>Training\<close>






















subsection \<open>Forecasting\<close>






















end
